theory Spec2Isabelle
  imports Main "HOL-Library.AList"
begin

section \<open>Data model of the chat hook\<close>

text \<open>
  The development embeds \<^verbatim>\<open>frontend_web/src/hooks/use-ag-ui-chat.ts\<close>: the React hook
  \<^verbatim>\<open>useAgUiChat\<close>, the subscriber it registers on the agent in \<^verbatim>\<open>sendMessage\<close>, its two
  effects, the merged message view and the tool registry functions.

  React state and refs are fields of one record. A state setter applied to an updater
  function is the updater applied to the field at once; the refs follow the state only
  when a render is committed, so between two renders a handler sees the refs of the last
  render. Values of type \<^verbatim>\<open>any\<close> are JSON values. Creation timestamps (\<^verbatim>\<open>new Date()\<close>) are
  left out of the messages.
\<close>

datatype json =
    JNull
  | JBool bool
  | JNum int
  | JStr string
  | JArr "json list"
  | JObj "(string \<times> json) list"

text \<open>\<^verbatim>\<open>Record<string, any>\<close>, the arguments of a tool call.\<close>

type_synonym args = "(string \<times> json) list"

text \<open>
  The own properties of a JavaScript object used as a dictionary are an association list
  with distinct keys, in creation order: writing an existing key keeps its place, a new
  key goes last (\<^const>\<open>AList.update\<close>), and \<^verbatim>\<open>delete\<close> is \<^const>\<open>AList.delete\<close>.
\<close>

type_synonym 'v obj = "(string \<times> 'v) list"

text \<open>
  A read \<^verbatim>\<open>ob[k]\<close> that finds no own property goes on to \<^verbatim>\<open>Object.prototype\<close>, which has a
  property under each of the following names: eleven functions and the accessor
  \<^verbatim>\<open>__proto__\<close>, whose getter gives the prototype of the object. All of these values are
  truthy, and none of them has a property \<^verbatim>\<open>handler\<close>, \<^verbatim>\<open>render\<close> or \<^verbatim>\<open>map\<close>.
\<close>

definition Object_prototype_names :: "string list" where
  "Object_prototype_names =
     [''constructor'', ''__defineGetter__'', ''__defineSetter__'', ''hasOwnProperty'',
      ''__lookupGetter__'', ''__lookupSetter__'', ''isPrototypeOf'', ''propertyIsEnumerable'',
      ''toString'', ''valueOf'', ''__proto__'', ''toLocaleString'']"

text \<open>
  \<^verbatim>\<open>Object.values\<close> lists the own properties whose keys are array indices (canonical decimal
  numerals below \<open>2\<^sup>3\<^sup>2 - 1\<close>) first, in ascending numeric order, and then the others in
  creation order.
\<close>

definition is_digit :: "char \<Rightarrow> bool" where
  "is_digit c = (c \<in> set ''0123456789'')"

text \<open>The value of a digit is its place among the digits.\<close>

definition digit_value :: "char \<Rightarrow> nat" where
  "digit_value c = length (takeWhile (\<lambda>d. d \<noteq> c) ''0123456789'')"

definition decimal_value :: "string \<Rightarrow> nat" where
  "decimal_value k = foldl (\<lambda>n c. 10 * n + digit_value c) 0 k"

definition is_array_index :: "string \<Rightarrow> bool" where
  "is_array_index k =
     (k \<noteq> [] \<and> list_all is_digit k \<and> (k = ''0'' \<or> hd k \<noteq> CHR ''0'') \<and>
      decimal_value k < 4294967295)"

definition Object_entries :: "'v obj \<Rightarrow> (string \<times> 'v) list" where
  "Object_entries ob =
     sort_key (\<lambda>(k, v). decimal_value k) (filter (\<lambda>(k, v). is_array_index k) ob) @
     filter (\<lambda>(k, v). \<not> is_array_index k) ob"

definition Object_values :: "'v obj \<Rightarrow> 'v list" where
  "Object_values ob = map snd (Object_entries ob)"

text \<open>Message identifiers: the results of \<^verbatim>\<open>uuid()\<close> are numbered, the others come with
  an event.\<close>

datatype ident = Uuid nat | EventId string

datatype role = User | Assistant | System

text \<open>\<^verbatim>\<open>ToolStatus\<close> of \<^verbatim>\<open>types/tools\<close>.\<close>

datatype tool_status = EXECUTING | COMPLETE

datatype content_part =
    TextPart string
  | ToolInvocationPart string "args option" tool_status

text \<open>
  \<^verbatim>\<open>MessageResponse\<close>: a chat message (id, role, thread, parts), the custom widget message
  of a rendered tool (tool name, arguments, thread) or an error message (id, thread, error
  text; its \<^verbatim>\<open>type\<close> is \<^verbatim>\<open>'error'\<close> and its role \<^verbatim>\<open>'system'\<close>). The last constructor is the
  \<^verbatim>\<open>null\<close> that \<^verbatim>\<open>messageRef.current!\<close> puts into the list when the ref is empty.
\<close>

datatype message_response =
    ChatMessage ident role "string option" "content_part list"
  | CustomMessageWidget string args string
  | ErrorMessage ident string string
  | NullMessage

text \<open>
  Modelled from the spec: the type \<^verbatim>\<open>ProgressStep\<close> of \<^verbatim>\<open>@/types/progress\<close> is not among the
  sources; the spec gives it as \<^verbatim>\<open>{label, done: bool, error?: string}\<close>. (\<^verbatim>\<open>done\<close> is a
  keyword of the proof language, hence the prefixed field names.)
\<close>

record ProgressStep =
  step_label :: string
  step_done :: bool
  step_error :: "string option"

text \<open>\<^verbatim>\<open>ToolSerialized\<close> of \<^verbatim>\<open>types/tools\<close>; \<^verbatim>\<open>enabled\<close> is optional.\<close>

record ToolSerialized =
  name :: string
  description :: string
  parameters :: json
  enabled :: "bool option"

text \<open>
  The runtime part of a \<^verbatim>\<open>Tool\<close>: \<^verbatim>\<open>Pick<Tool, 'handler' | 'render' | 'renderAndWait'>\<close>.
  A handler is a callback of the user interface; called on the arguments it returns or
  throws. Of a render function only its presence is read.
\<close>

datatype outcome = Returns | Throws

datatype render_fn = RenderFn nat

record ToolHandlers =
  handler :: "(args \<Rightarrow> outcome) option"
  render :: "render_fn option"
  renderAndWait :: "render_fn option"

text \<open>What \<^verbatim>\<open>agent.runAgent\<close> is called with, and the message put into \<^verbatim>\<open>agent.messages\<close>.\<close>

record run_request =
  run_agent :: nat
  run_message :: "ident \<times> string"
  run_tools :: "ToolSerialized list"

text \<open>
  The hook. First the React state (\<^verbatim>\<open>useState\<close>), then the prop \<^verbatim>\<open>chatId\<close> (after the
  default \<^verbatim>\<open>'main'\<close>) and the memoised agent, then the refs, then what the hook's calls do to
  its collaborators: the subscriptions registered on agents (each \<^verbatim>\<open>agent.subscribe\<close> is
  numbered; its \<^verbatim>\<open>unsubscribe\<close> removes the number), the agents whose \<^verbatim>\<open>abortController\<close> was
  aborted, the runs started, the tool handlers called, the calls of \<^verbatim>\<open>refetchChats\<close>, and
  the counters behind \<^verbatim>\<open>uuid()\<close> and \<^verbatim>\<open>agent.subscribe\<close>. Agents are numbered in creation
  order.

  \<^verbatim>\<open>toolHandlersRef.current\<close> is written by assignment, and an assignment to the key
  \<^verbatim>\<open>__proto__\<close> sets the prototype of the object instead of an own property:
  \<^verbatim>\<open>toolHandlersRef_proto\<close> is the binding that was made the prototype, if any.

  React compares the dependencies of a memo by identity (\<^verbatim>\<open>Object.is\<close>). Every array given
  to \<^verbatim>\<open>setMessages\<close> and every message given to \<^verbatim>\<open>setMessage\<close> is a new object:
  \<^verbatim>\<open>messages_id\<close> and \<^verbatim>\<open>message_id\<close> number the objects now held by the two states (\<^verbatim>\<open>null\<close>
  has no number), and \<^verbatim>\<open>alloc_next\<close> is the next free number.
\<close>

record hook =
  state :: json
  messages :: "message_response list"
  message :: "message_response option"
  userInput :: string
  tools :: "ToolSerialized obj"
  initialMessages :: "message_response list"
  initialState :: json
  progress :: "ProgressStep list obj"
  runningAgent :: bool
  toolHandlersRef :: "ToolHandlers obj"
  toolHandlersRef_proto :: "ToolHandlers option"
  chatId :: string
  agent :: nat
  agentRef :: nat
  messageRef :: "message_response option"
  messagesRef :: "message_response list"
  toolsRef :: "ToolSerialized obj"
  unsubscribeRef :: "nat option"
  messages_id :: nat
  message_id :: "nat option"
  alloc_next :: nat
  subscribers :: "nat list"
  aborted :: "nat list"
  runs :: "run_request list"
  handler_calls :: "(string \<times> args) list"
  refetchChats_calls :: nat
  uuid_next :: nat
  subscribe_next :: nat

text \<open>\<^verbatim>\<open>if (!chatId) chatId = 'main'\<close>.\<close>

definition default_chatId :: "string \<Rightarrow> string" where
  "default_chatId c = (if c = [] then ''main'' else c)"

text \<open>The hook after its first render with the prop \<^verbatim>\<open>chatId\<close>: every \<^verbatim>\<open>useState\<close> and
  \<^verbatim>\<open>useRef\<close> at its initial value, the first agent created.\<close>

definition mount :: "string \<Rightarrow> hook" where
  "mount c =
     \<lparr> state = JObj [], messages = [], message = None, userInput = [], tools = [],
       initialMessages = [], initialState = JObj [], progress = [], runningAgent = False,
       toolHandlersRef = [], toolHandlersRef_proto = None, chatId = default_chatId c,
       agent = 0, agentRef = 0, messageRef = None, messagesRef = [], toolsRef = [],
       unsubscribeRef = None, messages_id = 0, message_id = None, alloc_next = 1,
       subscribers = [], aborted = [], runs = [], handler_calls = [],
       refetchChats_calls = 0, uuid_next = 0, subscribe_next = 0 \<rparr>"

section \<open>Events\<close>

text \<open>
  The custom events of \<^verbatim>\<open>types/events.ts\<close>. The guards \<^verbatim>\<open>isProgressStart\<close>, \<^verbatim>\<open>isProgressDone\<close>
  and \<^verbatim>\<open>isProgressError\<close> compare \<^verbatim>\<open>event.name\<close> and narrow the type of \<^verbatim>\<open>event.value\<close>; here
  a constructor carries the name together with the value of that shape. \<^verbatim>\<open>step\<close> is a
  JavaScript number.
\<close>

datatype custom_event =
    ProgressStart string "ProgressStep list"
  | ProgressDone string int
  | ProgressError string int string
  | OtherCustom string json

fun isProgressStart :: "custom_event \<Rightarrow> bool" where
  "isProgressStart (ProgressStart _ _) = True"
| "isProgressStart _ = False"

fun isProgressDone :: "custom_event \<Rightarrow> bool" where
  "isProgressDone (ProgressDone _ _) = True"
| "isProgressDone _ = False"

fun isProgressError :: "custom_event \<Rightarrow> bool" where
  "isProgressError (ProgressError _ _ _) = True"
| "isProgressError _ = False"

text \<open>The two events \<^verbatim>\<open>createTextMessageFromAgUiEvent\<close> is called on: message id, and the
  delta of a content event.\<close>

datatype text_message_event =
    TextMessageStartEvent string
  | TextMessageContentEvent string string

text \<open>
  What the agent calls the subscriber with: the event and the parameters the handlers read.
  \<^item> text message start: message id;
  \<^item> text message content: message id, delta, \<^verbatim>\<open>textMessageBuffer\<close>;
  \<^item> text message end: message id;
  \<^item> tool call start: tool call id;
  \<^item> tool call end: tool call id, \<^verbatim>\<open>toolCallName\<close>, \<^verbatim>\<open>toolCallArgs\<close> (absent or an object);
  \<^item> state snapshot and state changed: \<^verbatim>\<open>params.state\<close>;
  \<^item> run error: \<^verbatim>\<open>event.rawEvent?.name\<close> and \<^verbatim>\<open>event.message\<close>.
\<close>

datatype ag_ui_event =
    TextMessageStart string
  | TextMessageContent string string string
  | TextMessageEnd string
  | ToolCallStart string
  | ToolCallEnd string string "args option"
  | StateSnapshot json
  | StateChanged json
  | RunFinished
  | Custom custom_event
  | RunError "string option" string

text \<open>What a handler can throw: the \<^verbatim>\<open>TypeError\<close> of a method call on \<^verbatim>\<open>undefined\<close>, and
  whatever a tool handler throws.\<close>

datatype js_error = TypeError | HandlerError

section \<open>Mappers\<close>

text \<open>
  Modelled from the spec: \<^verbatim>\<open>@/lib/mappers\<close> is not among the sources. By the spec,
  \<^verbatim>\<open>sendMessage\<close> "constructs a UserMessage from text" with an id generated on the client.
\<close>

definition createTextMessageFromUserInput :: "nat \<Rightarrow> string \<Rightarrow> string \<Rightarrow> message_response" where
  "createTextMessageFromUserInput n text c = ChatMessage (Uuid n) User (Some c) [TextPart text]"

text \<open>
  Modelled from the spec: \<^verbatim>\<open>@/lib/mappers\<close> is not among the sources. By the spec a
  message-start gives an assistant message with an empty text buffer, and the text of a
  content event is the transport's cumulative buffer when there is one ("that cumulative
  value must be preferred over re-concatenation"), else the delta.
\<close>

definition createTextMessageFromAgUiEvent ::
    "text_message_event \<Rightarrow> string option \<Rightarrow> message_response" where
  "createTextMessageFromAgUiEvent event textMessageBuffer =
     (case event of
        TextMessageStartEvent messageId \<Rightarrow>
          ChatMessage (EventId messageId) Assistant None
            [TextPart (case textMessageBuffer of Some b \<Rightarrow> b | None \<Rightarrow> [])]
      | TextMessageContentEvent messageId delta \<Rightarrow>
          ChatMessage (EventId messageId) Assistant None
            [TextPart (case textMessageBuffer of Some b \<Rightarrow> b | None \<Rightarrow> delta)])"

text \<open>
  Modelled from the spec: \<^verbatim>\<open>@/lib/mappers\<close> is not among the sources. By the spec a
  tool-call-end gives "a finalized ToolInvocation content part with status complete" with
  the tool name and the raw arguments.
\<close>

definition createToolMessageFromAgUiEvent ::
    "string \<Rightarrow> string \<Rightarrow> args option \<Rightarrow> message_response" where
  "createToolMessageFromAgUiEvent toolCallId toolCallName toolCallArgs =
     ChatMessage (EventId toolCallId) Assistant None
       [ToolInvocationPart toolCallName toolCallArgs COMPLETE]"

text \<open>
  Modelled from the spec: \<^verbatim>\<open>@/lib/mappers\<close> is not among the sources. By the spec the
  custom widget message is "tagged with the tool name and arguments".
\<close>

definition createCustomMessageWidget :: "args \<Rightarrow> string \<Rightarrow> string \<Rightarrow> message_response" where
  "createCustomMessageWidget toolCallArgs toolCallName threadId =
     CustomMessageWidget toolCallName toolCallArgs threadId"

section \<open>State setters and lookups\<close>

text \<open>\<^verbatim>\<open>setMessages(updater)\<close> and \<^verbatim>\<open>setMessage(value)\<close>: the new array, and a message that is
  not \<^verbatim>\<open>null\<close>, are new objects.\<close>

definition setMessages ::
    "(message_response list \<Rightarrow> message_response list) \<Rightarrow> hook \<Rightarrow> hook" where
  "setMessages updater st =
     st\<lparr>messages := updater (messages st), messages_id := alloc_next st,
        alloc_next := Suc (alloc_next st)\<rparr>"

definition setMessage :: "message_response option \<Rightarrow> hook \<Rightarrow> hook" where
  "setMessage m st =
     (case m of
        None \<Rightarrow> st\<lparr>message := None, message_id := None\<rparr>
      | Some x \<Rightarrow>
          st\<lparr>message := Some x, message_id := Some (alloc_next st),
             alloc_next := Suc (alloc_next st)\<rparr>)"

text \<open>
  What \<^verbatim>\<open>onToolCallEndEvent\<close> finds under a tool name. \<^verbatim>\<open>toolsRef.current[name]\<close> is truthy
  for a registered descriptor and for a name inherited from \<^verbatim>\<open>Object.prototype\<close>.
  \<^verbatim>\<open>toolHandlersRef.current[name]\<close> is the binding stored under the name, or, for the name
  \<^verbatim>\<open>__proto__\<close>, the binding that was made the prototype; an inherited built-in value has
  neither \<^verbatim>\<open>handler\<close> nor \<^verbatim>\<open>render\<close>, like \<^verbatim>\<open>undefined\<close> under \<^verbatim>\<open>?.\<close>.
\<close>

definition tool_found :: "hook \<Rightarrow> string \<Rightarrow> bool" where
  "tool_found st nm = (map_of (toolsRef st) nm \<noteq> None \<or> nm \<in> set Object_prototype_names)"

definition toolHandler_found :: "hook \<Rightarrow> string \<Rightarrow> ToolHandlers option" where
  "toolHandler_found st nm =
     (case map_of (toolHandlersRef st) nm of
        Some h \<Rightarrow> Some h
      | None \<Rightarrow> if nm = ''__proto__'' then toolHandlersRef_proto st else None)"

definition bound_handler :: "hook \<Rightarrow> string \<Rightarrow> (args \<Rightarrow> outcome) option" where
  "bound_handler st nm = (case toolHandler_found st nm of Some h \<Rightarrow> handler h | None \<Rightarrow> None)"

definition bound_render :: "hook \<Rightarrow> string \<Rightarrow> render_fn option" where
  "bound_render st nm = (case toolHandler_found st nm of Some h \<Rightarrow> render h | None \<Rightarrow> None)"

section \<open>The subscriber of \<^verbatim>\<open>sendMessage\<close>\<close>

text \<open>
  The handlers of one call of \<^verbatim>\<open>sendMessage\<close> close over the \<^verbatim>\<open>unsubscribe\<close> of their own
  subscription and over the \<^verbatim>\<open>chatId\<close> of the render that made the call. The state setters
  are those of the one hook instance, whichever chat is shown.
\<close>

record subscription =
  cl_unsubscribe :: nat
  cl_chatId :: string

definition unsubscribe :: "nat \<Rightarrow> hook \<Rightarrow> hook" where
  "unsubscribe n st = st\<lparr>subscribers := removeAll n (subscribers st)\<rparr>"

definition onTextMessageStartEvent :: "string \<Rightarrow> hook \<Rightarrow> hook" where
  "onTextMessageStartEvent messageId st =
     setMessage (Some (createTextMessageFromAgUiEvent (TextMessageStartEvent messageId) None)) st"

definition onTextMessageContentEvent :: "string \<Rightarrow> string \<Rightarrow> string \<Rightarrow> hook \<Rightarrow> hook" where
  "onTextMessageContentEvent messageId delta textMessageBuffer st =
     setMessage (Some (createTextMessageFromAgUiEvent
        (TextMessageContentEvent messageId delta) (Some textMessageBuffer))) st"

text \<open>\<^verbatim>\<open>setMessages(state => [...state, messageRef.current!])\<close>: the ref is read, not the
  state \<^verbatim>\<open>message\<close>; the assertion \<^verbatim>\<open>!\<close> checks nothing at run time, and a \<^verbatim>\<open>null\<close> in the ref
  goes into the list.\<close>

definition onTextMessageEndEvent :: "hook \<Rightarrow> hook" where
  "onTextMessageEndEvent st =
     (setMessage None
        (setMessages
           (\<lambda>state. state @ [case messageRef st of Some m \<Rightarrow> m | None \<Rightarrow> NullMessage]) st))
       \<lparr>runningAgent := False\<rparr>"

text \<open>
  The three branches of \<^verbatim>\<open>onToolCallEndEvent\<close>. The handler is called before
  \<^verbatim>\<open>setMessages\<close>: when it throws, the exception leaves the callback and no message is
  appended.
\<close>

definition onToolCallEndEvent ::
    "subscription \<Rightarrow> string \<Rightarrow> string \<Rightarrow> args option \<Rightarrow> hook \<Rightarrow> js_error + hook" where
  "onToolCallEndEvent cl toolCallId toolCallName toolCallArgs st =
     (if tool_found st toolCallName \<and> bound_handler st toolCallName \<noteq> None \<and>
         toolCallArgs \<noteq> None then
        (case the (bound_handler st toolCallName) (the toolCallArgs) of
           Throws \<Rightarrow> Inl HandlerError
         | Returns \<Rightarrow>
             Inr (setMessages
                    (\<lambda>state. state @
                       [createToolMessageFromAgUiEvent toolCallId toolCallName toolCallArgs])
                    (st\<lparr>handler_calls :=
                          handler_calls st @ [(toolCallName, the toolCallArgs)]\<rparr>)))
      else if tool_found st toolCallName \<and> bound_render st toolCallName \<noteq> None \<and>
              toolCallArgs \<noteq> None then
        Inr (setMessages
               (\<lambda>state. state @
                  [createCustomMessageWidget (the toolCallArgs) toolCallName (cl_chatId cl)])
               st)
      else
        Inr (setMessages
               (\<lambda>state. state @
                  [createToolMessageFromAgUiEvent toolCallId toolCallName toolCallArgs])
               st))"

definition onStateSnapshotEvent :: "json \<Rightarrow> hook \<Rightarrow> hook" where
  "onStateSnapshotEvent s st = st\<lparr>state := s\<rparr>"

definition onStateChanged :: "json \<Rightarrow> hook \<Rightarrow> hook" where
  "onStateChanged s st = st\<lparr>state := s\<rparr>"

definition onRunFinishedEvent :: "subscription \<Rightarrow> hook \<Rightarrow> hook" where
  "onRunFinishedEvent cl st =
     (unsubscribe (cl_unsubscribe cl) st)
       \<lparr>unsubscribeRef := None, refetchChats_calls := Suc (refetchChats_calls st)\<rparr>"

text \<open>\<^verbatim>\<open>xs.map((s, i) => f(s, i))\<close>.\<close>

definition Array_map :: "('a \<Rightarrow> nat \<Rightarrow> 'b) \<Rightarrow> 'a list \<Rightarrow> 'b list" where
  "Array_map f xs = map (\<lambda>i. f (xs ! i) i) [0..<length xs]"

text \<open>
  \<^verbatim>\<open>onCustomEvent\<close>. In the second and third branch \<^verbatim>\<open>state[event.value.id]\<close> is
  \<^verbatim>\<open>undefined\<close> when the track is missing, and \<^verbatim>\<open>.map\<close> on it throws a \<^verbatim>\<open>TypeError\<close>; so
  does the call of \<^verbatim>\<open>.map\<close> on a value inherited from \<^verbatim>\<open>Object.prototype\<close>, which has no
  such method.
\<close>

definition onCustomEvent :: "custom_event \<Rightarrow> hook \<Rightarrow> js_error + hook" where
  "onCustomEvent event st =
     (case event of
        ProgressStart pid steps \<Rightarrow> Inr (st\<lparr>progress := AList.update pid steps (progress st)\<rparr>)
      | ProgressDone pid step \<Rightarrow>
          (case map_of (progress st) pid of
             None \<Rightarrow> Inl TypeError
           | Some steps \<Rightarrow>
               Inr (st\<lparr>progress := AList.update pid
                      (Array_map (\<lambda>s i. if step = int i then s\<lparr>step_done := True\<rparr> else s) steps)
                      (progress st)\<rparr>))
      | ProgressError pid step msg \<Rightarrow>
          (case map_of (progress st) pid of
             None \<Rightarrow> Inl TypeError
           | Some steps \<Rightarrow>
               Inr (st\<lparr>progress := AList.update pid
                      (Array_map (\<lambda>s i. if step = int i then s\<lparr>step_error := Some msg\<rparr> else s) steps)
                      (progress st)\<rparr>))
      | OtherCustom _ _ \<Rightarrow> Inr st)"

definition onRunErrorEvent :: "subscription \<Rightarrow> string option \<Rightarrow> string \<Rightarrow> hook \<Rightarrow> hook" where
  "onRunErrorEvent cl rawEvent_name msg st =
     (if rawEvent_name = Some ''AbortError'' then st
      else setMessages
             (\<lambda>state. state @ [ErrorMessage (Uuid (uuid_next st)) (cl_chatId cl) msg])
             (st\<lparr>runningAgent := False, uuid_next := Suc (uuid_next st)\<rparr>))"

text \<open>The subscriber object passed to \<^verbatim>\<open>agent.subscribe\<close>: one handler per event;
  \<^verbatim>\<open>onToolCallStartEvent\<close> only logs.\<close>

fun subscriber :: "subscription \<Rightarrow> ag_ui_event \<Rightarrow> hook \<Rightarrow> js_error + hook" where
  "subscriber cl (TextMessageStart messageId) st = Inr (onTextMessageStartEvent messageId st)"
| "subscriber cl (TextMessageContent messageId delta buf) st =
     Inr (onTextMessageContentEvent messageId delta buf st)"
| "subscriber cl (TextMessageEnd messageId) st = Inr (onTextMessageEndEvent st)"
| "subscriber cl (ToolCallStart toolCallId) st = Inr st"
| "subscriber cl (ToolCallEnd toolCallId toolCallName toolCallArgs) st =
     onToolCallEndEvent cl toolCallId toolCallName toolCallArgs st"
| "subscriber cl (StateSnapshot s) st = Inr (onStateSnapshotEvent s st)"
| "subscriber cl (StateChanged s) st = Inr (onStateChanged s st)"
| "subscriber cl RunFinished st = Inr (onRunFinishedEvent cl st)"
| "subscriber cl (Custom event) st = onCustomEvent event st"
| "subscriber cl (RunError rawEvent_name msg) st = Inr (onRunErrorEvent cl rawEvent_name msg st)"

section \<open>Effects, \<^verbatim>\<open>sendMessage\<close> and traces\<close>

text \<open>The effect without dependencies: when a render is committed the refs take the
  values of the state.\<close>

definition useEffect_refs :: "hook \<Rightarrow> hook" where
  "useEffect_refs st =
     st\<lparr>agentRef := agent st, messageRef := message st, messagesRef := messages st,
        toolsRef := tools st\<rparr>"

text \<open>
  The effect on \<^verbatim>\<open>[chatId]\<close>. Its cleanup calls the \<^verbatim>\<open>unsubscribe\<close> held in the ref, if any
  (the ref keeps it), and aborts the agent of the render that set the effect up; its body
  resets four pieces of state. \<^verbatim>\<open>state\<close> is not among them.
\<close>

definition chatId_cleanup :: "hook \<Rightarrow> hook" where
  "chatId_cleanup st =
     (let st1 = (case unsubscribeRef st of Some n \<Rightarrow> unsubscribe n st | None \<Rightarrow> st)
      in st1\<lparr>aborted := aborted st1 @ [agent st]\<rparr>)"

definition chatId_effect :: "hook \<Rightarrow> hook" where
  "chatId_effect st =
     (setMessage None (setMessages (\<lambda>state. []) st))\<lparr>progress := [], runningAgent := False\<rparr>"

text \<open>
  The hook rendered with the prop \<^verbatim>\<open>chatId\<close> set to \<open>c\<close>. When the identifier (after the
  default) differs from the last one, \<^verbatim>\<open>useMemo\<close> creates a new agent, the cleanup of the
  old effect runs on the old agent, then the effect body; the render that the setters cause
  brings the refs up to date. With the same identifier neither memo nor effect runs again.
\<close>

definition switchChat :: "string \<Rightarrow> hook \<Rightarrow> hook" where
  "switchChat c st =
     (if default_chatId c = chatId st then useEffect_refs st
      else useEffect_refs
             (chatId_effect ((chatId_cleanup st)\<lparr>chatId := default_chatId c, agent := Suc (agent st)\<rparr>)))"

text \<open>The closure variables of the subscriber that \<^verbatim>\<open>sendMessage\<close> creates in \<open>st\<close>.\<close>

definition sendMessage_subscription :: "hook \<Rightarrow> subscription" where
  "sendMessage_subscription st = \<lparr>cl_unsubscribe = subscribe_next st, cl_chatId = chatId st\<rparr>"

text \<open>
  \<^verbatim>\<open>sendMessage\<close>: one \<^verbatim>\<open>uuid()\<close> for the message given to the agent, one for the user message
  shown at once; the subscriber is registered on the agent of the chat (the same agent for
  every call in one chat) and its \<^verbatim>\<open>unsubscribe\<close> kept in the ref; the run is started with
  the tools that are not disabled.
\<close>

definition sendMessage :: "string \<Rightarrow> hook \<Rightarrow> hook" where
  "sendMessage text st =
     (setMessages
        (\<lambda>state. state @ [createTextMessageFromUserInput (Suc (uuid_next st)) text (chatId st)])
        st)
       \<lparr>userInput := [],
        runningAgent := True,
        subscribers := subscribers st @ [subscribe_next st],
        unsubscribeRef := Some (subscribe_next st),
        runs := runs st @
          [\<lparr>run_agent = agent st,
            run_message = (Uuid (uuid_next st), text),
            run_tools = filter (\<lambda>tool. enabled tool \<noteq> Some False) (Object_values (tools st))\<rparr>],
        uuid_next := Suc (Suc (uuid_next st)),
        subscribe_next := Suc (subscribe_next st)\<rparr>"

text \<open>
  What happens to the hook while runs are in flight is a trace of steps: a call of the
  handlers of one subscription with an event, or a committed render. Which handlers an
  agent calls for an event, and when React renders between two calls, is decided outside
  the hook; a trace fixes both. An exception ends the trace.
\<close>

datatype step = Call subscription ag_ui_event | Render

fun run :: "step list \<Rightarrow> hook \<Rightarrow> js_error + hook" where
  "run [] st = Inr st"
| "run (Call cl ev # steps) st =
     (case subscriber cl ev st of Inl e \<Rightarrow> Inl e | Inr st' \<Rightarrow> run steps st')"
| "run (Render # steps) st = run steps (useEffect_refs st)"

section \<open>The merged view and the tool registry\<close>

text \<open>
  The function that computes \<^verbatim>\<open>combinedMessages\<close>, from the two results of
  \<^verbatim>\<open>useFetchHistory\<close> (\<^verbatim>\<open>data\<close> may be \<^verbatim>\<open>undefined\<close>) and the state. \<^verbatim>\<open>!history?.length\<close> holds
  for a missing and for an empty history; the array \<^verbatim>\<open>initialMessages\<close> is truthy.
\<close>

definition combinedMessages_factory ::
    "bool \<Rightarrow> message_response list option \<Rightarrow> hook \<Rightarrow> message_response list" where
  "combinedMessages_factory isLoadingHistory history st =
     (let result0 =
            (if \<not> isLoadingHistory \<and> (case history of None \<Rightarrow> True | Some h \<Rightarrow> length h = 0)
             then initialMessages st else []);
          result1 = (case history of Some h \<Rightarrow> result0 @ h | None \<Rightarrow> result0);
          result2 = result1 @ messages st
      in (case message st of Some m \<Rightarrow> result2 @ [m] | None \<Rightarrow> result2))"

text \<open>
  The dependency list \<^verbatim>\<open>[history, messages, message, isLoadingHistory]\<close>, as React compares
  it: the three objects by identity. The history comes with the number of its array.
  \<^verbatim>\<open>initialMessages\<close> is read by the function but is not a dependency.
\<close>

record view_deps =
  dep_history :: "nat option"
  dep_messages :: nat
  dep_message :: "nat option"
  dep_isLoadingHistory :: bool

definition combinedMessages_deps ::
    "bool \<Rightarrow> (nat \<times> message_response list) option \<Rightarrow> hook \<Rightarrow> view_deps" where
  "combinedMessages_deps isLoadingHistory history st =
     \<lparr>dep_history = map_option fst history, dep_messages = messages_id st,
      dep_message = message_id st, dep_isLoadingHistory = isLoadingHistory\<rparr>"

text \<open>\<^verbatim>\<open>useMemo\<close>: the cell holds the dependencies and the value of the last computation;
  the value is computed anew on the first render and when a dependency has changed.\<close>

definition useMemo :: "('d \<times> 'v) option \<Rightarrow> 'd \<Rightarrow> 'v \<Rightarrow> 'd \<times> 'v" where
  "useMemo cell deps v =
     (case cell of
        None \<Rightarrow> (deps, v)
      | Some (deps0, v0) \<Rightarrow> if deps0 = deps then (deps0, v0) else (deps, v))"

text \<open>\<^verbatim>\<open>combinedMessages\<close> at a render: the new memo cell; its second component is the
  view.\<close>

definition combinedMessages ::
    "(view_deps \<times> message_response list) option \<Rightarrow> bool \<Rightarrow>
     (nat \<times> message_response list) option \<Rightarrow> hook \<Rightarrow> view_deps \<times> message_response list" where
  "combinedMessages cell isLoadingHistory history st =
     useMemo cell (combinedMessages_deps isLoadingHistory history st)
       (combinedMessages_factory isLoadingHistory (map_option snd history) st)"

definition registerOrUpdateTool :: "string \<Rightarrow> ToolSerialized \<Rightarrow> hook \<Rightarrow> hook" where
  "registerOrUpdateTool i tool st = st\<lparr>tools := AList.update i tool (tools st)\<rparr>"

text \<open>\<^verbatim>\<open>toolHandlersRef.current[name] = handler\<close>: an assignment, which for the key
  \<^verbatim>\<open>__proto__\<close> makes the binding the prototype of the object.\<close>

definition updateToolHandler :: "string \<Rightarrow> ToolHandlers \<Rightarrow> hook \<Rightarrow> hook" where
  "updateToolHandler nm h st =
     (if nm = ''__proto__'' then st\<lparr>toolHandlersRef_proto := Some h\<rparr>
      else st\<lparr>toolHandlersRef := AList.update nm h (toolHandlersRef st)\<rparr>)"

definition removeTool :: "string \<Rightarrow> hook \<Rightarrow> hook" where
  "removeTool nm st =
     st\<lparr>tools := AList.delete nm (tools st),
        toolHandlersRef := AList.delete nm (toolHandlersRef st)\<rparr>"

text \<open>The setters of the seed messages and of the progress tracks, which the hook hands
  to the presentation layer.\<close>

definition setInitialMessages :: "message_response list \<Rightarrow> hook \<Rightarrow> hook" where
  "setInitialMessages ms st = st\<lparr>initialMessages := ms\<rparr>"

definition setProgress :: "ProgressStep list obj \<Rightarrow> hook \<Rightarrow> hook" where
  "setProgress pr st = st\<lparr>progress := pr\<rparr>"

section \<open>Notions used in the statements\<close>

text \<open>The step \<open>i\<close> of track \<open>pid\<close> exists and is marked done, respectively carries an
  error.\<close>

definition marked_done :: "ProgressStep list obj \<Rightarrow> string \<Rightarrow> nat \<Rightarrow> bool" where
  "marked_done pr pid i =
     (case map_of pr pid of
        Some steps \<Rightarrow> i < length steps \<and> step_done (steps ! i)
      | None \<Rightarrow> False)"

definition marked_error :: "ProgressStep list obj \<Rightarrow> string \<Rightarrow> nat \<Rightarrow> bool" where
  "marked_error pr pid i =
     (case map_of pr pid of
        Some steps \<Rightarrow> i < length steps \<and> step_error (steps ! i) \<noteq> None
      | None \<Rightarrow> False)"


text \<open>The step of a trace is a progress-start for the track \<open>pid\<close>, which replaces the
  track.\<close>

fun restarts :: "string \<Rightarrow> step \<Rightarrow> bool" where
  "restarts pid (Call cl (Custom (ProgressStart p steps))) = (p = pid)"
| "restarts pid _ = False"


section \<open>Example values\<close>

definition alert_v1 :: ToolSerialized where
  "alert_v1 =
     \<lparr>name = ''alert'', description = ''Show an alert'', parameters = JObj [], enabled = None\<rparr>"

definition alert_v2 :: ToolSerialized where
  "alert_v2 =
     \<lparr>name = ''alert'', description = ''Show a modal alert'', parameters = JObj [],
      enabled = Some True\<rparr>"

definition hidden_tool :: ToolSerialized where
  "hidden_tool =
     \<lparr>name = ''hidden'', description = ''Disabled tool'', parameters = JObj [],
      enabled = Some False\<rparr>"



definition alert_handlers :: ToolHandlers where
  "alert_handlers = \<lparr>handler = Some (\<lambda>a. Returns), render = None, renderAndWait = None\<rparr>"



text \<open>The subscriptions of the first and of the second \<^verbatim>\<open>sendMessage\<close> in chat \<^verbatim>\<open>t1\<close>.\<close>

definition chat_t1 :: subscription where
  "chat_t1 = \<lparr>cl_unsubscribe = 0, cl_chatId = ''t1''\<rparr>"

definition retry_t1 :: subscription where
  "retry_t1 = \<lparr>cl_unsubscribe = 1, cl_chatId = ''t1''\<rparr>"

definition seed_message :: message_response where
  "seed_message = ChatMessage (Uuid 100) Assistant None [TextPart ''How can I help'']"

definition step_A :: ProgressStep where
  "step_A = \<lparr>step_label = ''A'', step_done = False, step_error = None\<rparr>"

definition step_B :: ProgressStep where
  "step_B = \<lparr>step_label = ''B'', step_done = False, step_error = None\<rparr>"



text \<open>A track whose first step is done, and steps that come after.\<close>

definition after_done :: hook where
  "after_done = setProgress [(''p1'', [step_A\<lparr>step_done := True\<rparr>, step_B])] (mount ''t1'')"

definition later_steps :: "step list" where
  "later_steps =
     [Call chat_t1 (Custom (ProgressError ''p1'' 0 ''boom'')),
      Call chat_t1 (Custom (ProgressDone ''p1'' 1)), Render,
      Call chat_t1 (TextMessageStart ''m1''),
      Call retry_t1 (Custom (ProgressStart ''p2'' [step_A])),
      Call chat_t1 (Custom (ProgressDone ''p1'' 7)), Render]"

text \<open>Chat \<^verbatim>\<open>t1\<close> in the middle of a run: a state snapshot, a progress track and the start of
  the assistant's message have arrived.\<close>

definition mid_run :: hook where
  "mid_run =
     projr (run
       [Call chat_t1 (StateSnapshot (JObj [(''draft'', JStr ''v1'')])), Render,
        Call chat_t1 (Custom (ProgressStart ''p1'' [step_A])), Render,
        Call chat_t1 (TextMessageStart ''m1''), Render]
       (sendMessage ''hi'' (mount ''t1'')))"

text \<open>Chat \<^verbatim>\<open>t1\<close> after the first \<^verbatim>\<open>sendMessage\<close> and the render that follows; and after that
  run has ended with an error and the user has sent a second message.\<close>

definition sent_hi :: hook where
  "sent_hi = useEffect_refs (sendMessage ''hi'' (mount ''t1''))"

definition retried :: hook where
  "retried =
     useEffect_refs (sendMessage ''again''
       (projr (run [Call chat_t1 (RunError None ''502 Bad Gateway''), Render] sent_hi)))"

text \<open>Memo cells of the view: after the first render while the history is loading; after
  the seed message has been set and the history has arrived empty; and after a first
  render with the empty history already there.\<close>

definition loading_cell :: "view_deps \<times> message_response list" where
  "loading_cell = combinedMessages None True None (mount ''t1'')"

definition loaded_cell :: "view_deps \<times> message_response list" where
  "loaded_cell =
     combinedMessages (Some loading_cell) False (Some (7, []))
       (setInitialMessages [seed_message] (mount ''t1''))"

definition empty_cell :: "view_deps \<times> message_response list" where
  "empty_cell = combinedMessages None False (Some (7, [])) (mount ''t1'')"

section \<open>Lemmas on dictionaries, arrays and traces\<close>

lemma filter_key_update:
  "distinct (map fst al) \<Longrightarrow> filter (\<lambda>(k', v). k' = k) (AList.update k v al) = [(k, v)]"
proof (induction al)
  case Nil
  then show ?case by simp
next
  case (Cons p al)
  show ?case
  proof (cases "fst p = k")
    case True
    with Cons.prems have "k \<notin> fst ` set al" by auto
    then have "filter (\<lambda>(k', v). k' = k) al = []"
      by (force simp: filter_empty_conv)
    with True show ?thesis by (cases p) simp
  next
    case False
    with Cons show ?thesis by (cases p) simp
  qed
qed

lemma update_same: "map_of al k = Some v \<Longrightarrow> AList.update k v al = al"
  by (induction al) (auto split: if_splits)

lemma set_Object_values: "set (Object_values ob) = snd ` set ob"
  by (auto simp: Object_values_def Object_entries_def)

lemma length_Array_map: "length (Array_map f xs) = length xs"
  by (simp add: Array_map_def)

lemma nth_Array_map: "i < length xs \<Longrightarrow> Array_map f xs ! i = f (xs ! i) i"
  by (simp add: Array_map_def)

lemma Array_map_ident:
  "(\<And>i. i < length xs \<Longrightarrow> f (xs ! i) i = xs ! i) \<Longrightarrow> Array_map f xs = xs"
  by (rule nth_equalityI) (simp_all add: length_Array_map nth_Array_map)

lemma run_append:
  "run (xs @ ys) st = (case run xs st of Inl e \<Rightarrow> Inl e | Inr st' \<Rightarrow> run ys st')"
  by (induction xs st rule: run.induct) (auto split: sum.splits)

lemma mid_run_fields:
  "chatId mid_run = ''t1''" "unsubscribeRef mid_run = Some 0" "subscribers mid_run = [0]"
  "state mid_run = JObj [(''draft'', JStr ''v1'')]" "agent mid_run = 0" "aborted mid_run = []"
  "messages mid_run = [ChatMessage (Uuid 1) User (Some ''t1'') [TextPart ''hi'']]"
  "message mid_run = Some (ChatMessage (EventId ''m1'') Assistant None [TextPart []])"
  "progress mid_run = [(''p1'', [step_A])]" "runningAgent mid_run" "uuid_next mid_run = 2"
  by (simp_all add: mid_run_def sendMessage_def mount_def default_chatId_def
      onStateSnapshotEvent_def onCustomEvent_def onTextMessageStartEvent_def useEffect_refs_def
      createTextMessageFromUserInput_def createTextMessageFromAgUiEvent_def chat_t1_def
      setMessages_def setMessage_def)

lemma sent_hi_fields:
  "messages sent_hi = [ChatMessage (Uuid 1) User (Some ''t1'') [TextPart ''hi'']]"
  "message sent_hi = None" "messageRef sent_hi = None" "subscribers sent_hi = [0]"
  "uuid_next sent_hi = 2" "chatId sent_hi = ''t1''" "unsubscribeRef sent_hi = Some 0"
  "subscribe_next sent_hi = 1" "agent sent_hi = 0"
  by (simp_all add: sent_hi_def useEffect_refs_def sendMessage_def mount_def setMessages_def
      createTextMessageFromUserInput_def default_chatId_def)

lemma retried_fields:
  "subscribers retried = [0, 1]" "agent retried = 0" "chatId retried = ''t1''"
  "messages retried =
     [ChatMessage (Uuid 1) User (Some ''t1'') [TextPart ''hi''],
      ErrorMessage (Uuid 2) ''t1'' ''502 Bad Gateway'',
      ChatMessage (Uuid 4) User (Some ''t1'') [TextPart ''again'']]"
  "uuid_next retried = 5" "runs retried = [\<lparr>run_agent = 0, run_message = (Uuid 0, ''hi''), run_tools = []\<rparr>,
      \<lparr>run_agent = 0, run_message = (Uuid 3, ''again''), run_tools = []\<rparr>]"
  by (simp_all add: retried_def sent_hi_def useEffect_refs_def sendMessage_def mount_def
      setMessages_def onRunErrorEvent_def chat_t1_def createTextMessageFromUserInput_def
      default_chatId_def Object_values_def Object_entries_def)

text \<open>The order of \<^verbatim>\<open>Object.values\<close> on an example: array indices first, by value; \<^verbatim>\<open>01\<close>
  is not one.\<close>

lemma Object_values_order:
  "Object_values [(''b'', 1 :: nat), (''10'', 2), (''a'', 3), (''2'', 4), (''01'', 5)] =
     [4, 2, 1, 3, 5]"
  by (simp add: Object_values_def Object_entries_def is_array_index_def is_digit_def
      decimal_value_def digit_value_def)

text \<open>The keys of the tool registry stay distinct: the registry is a dictionary at the
  start and after every operation of the hook.\<close>

lemma subscriber_tools:
  assumes "subscriber cl ev st = Inr st'"
  shows "tools st' = tools st"
  using assms
  by (cases ev)
     (auto simp: onTextMessageStartEvent_def onTextMessageContentEvent_def
        onTextMessageEndEvent_def onToolCallEndEvent_def onStateSnapshotEvent_def
        onStateChanged_def onRunFinishedEvent_def unsubscribe_def onRunErrorEvent_def
        onCustomEvent_def setMessages_def setMessage_def
        split: if_splits outcome.splits custom_event.splits option.splits)

lemma tools_keys_distinct:
  "distinct (map fst (tools (mount c)))"
  "distinct (map fst (tools st)) \<Longrightarrow> distinct (map fst (tools (registerOrUpdateTool n d st)))"
  "distinct (map fst (tools st)) \<Longrightarrow> distinct (map fst (tools (removeTool n st)))"
  "tools (updateToolHandler n h st) = tools st"
  "tools (sendMessage text st) = tools st"
  "tools (switchChat c st) = tools st"
  "run [s] st = Inr st' \<Longrightarrow> tools st' = tools st"
  by (cases s;
      auto simp: mount_def registerOrUpdateTool_def removeTool_def updateToolHandler_def
      sendMessage_def switchChat_def useEffect_refs_def chatId_effect_def chatId_cleanup_def
      unsubscribe_def distinct_update distinct_delete Let_def setMessages_def setMessage_def
      dest: subscriber_tools split: option.splits sum.splits)+

section \<open>Cancellation of a run (C1)\<close>











section \<open>Progress events on a missing track or step (C2)\<close>

text \<open>A progress-done or progress-error whose step index is out of range for an existing
  track leaves the state as it is.\<close>

lemma progress_index_out_of_range:
  assumes "map_of (progress st) pid = Some steps" and "step < 0 \<or> int (length steps) \<le> step"
  shows "onCustomEvent (ProgressDone pid step) st = Inr st"
    and "onCustomEvent (ProgressError pid step msg) st = Inr st"
proof -
  have "Array_map (\<lambda>s i. if step = int i then s\<lparr>step_done := True\<rparr> else s) steps = steps"
    using assms(2) by (intro Array_map_ident) auto
  then show "onCustomEvent (ProgressDone pid step) st = Inr st"
    using assms(1) by (simp add: onCustomEvent_def update_same)
  have "Array_map (\<lambda>s i. if step = int i then s\<lparr>step_error := Some msg\<rparr> else s) steps = steps"
    using assms(2) by (intro Array_map_ident) auto
  then show "onCustomEvent (ProgressError pid step msg) st = Inr st"
    using assms(1) by (simp add: onCustomEvent_def update_same)
qed

text \<open>For a track that does not exist both events throw.\<close>

lemma progress_missing_track:
  assumes "map_of (progress st) pid = None"
  shows "onCustomEvent (ProgressDone pid step) st = Inl TypeError"
    and "onCustomEvent (ProgressError pid step msg) st = Inl TypeError"
  using assms by (simp_all add: onCustomEvent_def)

text \<open>
  C2 on the code: for a track that does not exist the handler is not a silent no-op. In a
  freshly mounted hook, which has no track \<^verbatim>\<open>p1\<close>, a progress-done and a progress-error for
  \<^verbatim>\<open>p1\<close> both throw a \<^verbatim>\<open>TypeError\<close>.
\<close>

theorem progress_missing_track_throws:
  "subscriber chat_t1 (Custom (ProgressDone ''p1'' 0)) (mount ''t1'') = Inl TypeError \<and>
   subscriber chat_t1 (Custom (ProgressError ''p1'' 0 ''boom'')) (mount ''t1'') = Inl TypeError"
  by (simp add: onCustomEvent_def mount_def)

section \<open>Change of chat (C3)\<close>

text \<open>
  C3, as the code has it. When the chat identifier changes, the subscription held in the
  ref is released, the agent of the old chat is aborted and a new agent is created; the
  finalized messages, the in-progress message, the progress tracks and \<^verbatim>\<open>runningAgent\<close> are
  reset. The state snapshot is not reset: it is carried into the new chat.
\<close>

theorem switchChat_resets:
  assumes "default_chatId c \<noteq> chatId st"
  shows "messages (switchChat c st) = [] \<and> message (switchChat c st) = None \<and>
         progress (switchChat c st) = [] \<and> \<not> runningAgent (switchChat c st) \<and>
         chatId (switchChat c st) = default_chatId c \<and>
         agent (switchChat c st) = Suc (agent st) \<and>
         agent st \<in> set (aborted (switchChat c st)) \<and>
         (\<forall>n. unsubscribeRef st = Some n \<longrightarrow> n \<notin> set (subscribers (switchChat c st))) \<and>
         state (switchChat c st) = state st"
  using assms
  by (auto simp: switchChat_def useEffect_refs_def chatId_effect_def chatId_cleanup_def
      unsubscribe_def setMessages_def setMessage_def Let_def split: option.splits)

theorem switchChat_resets_witness:
  "default_chatId ''t2'' \<noteq> chatId mid_run \<and>
   messages mid_run \<noteq> [] \<and> message mid_run \<noteq> None \<and> progress mid_run \<noteq> [] \<and>
   runningAgent mid_run \<and>
   messages (switchChat ''t2'' mid_run) = [] \<and> message (switchChat ''t2'' mid_run) = None \<and>
   progress (switchChat ''t2'' mid_run) = [] \<and> \<not> runningAgent (switchChat ''t2'' mid_run) \<and>
   chatId (switchChat ''t2'' mid_run) = ''t2'' \<and>
   subscribers (switchChat ''t2'' mid_run) = [] \<and> aborted (switchChat ''t2'' mid_run) = [0]"
proof -
  have h: "default_chatId ''t2'' \<noteq> chatId mid_run"
    by (simp add: mid_run_fields default_chatId_def)
  have s: "subscribers (switchChat ''t2'' mid_run) = []"
    "aborted (switchChat ''t2'' mid_run) = [0]"
    using h by (simp_all add: switchChat_def useEffect_refs_def chatId_effect_def
        chatId_cleanup_def unsubscribe_def mid_run_fields setMessages_def setMessage_def)
  show ?thesis
    using h s switchChat_resets [OF h] by (simp add: mid_run_fields default_chatId_def)
qed

text \<open>The claim as stated fails: the state snapshot received in chat \<^verbatim>\<open>t1\<close> is still there
  after the change to chat \<^verbatim>\<open>t2\<close>, where a fresh hook has the empty object.\<close>

theorem state_snapshot_survives_switch_counterexample:
  "state (switchChat ''t2'' mid_run) = JObj [(''draft'', JStr ''v1'')] \<and>
   state (mount ''t2'') = JObj []"
  by (simp add: mid_run_fields switchChat_def useEffect_refs_def chatId_effect_def
      chatId_cleanup_def unsubscribe_def default_chatId_def mount_def setMessages_def
      setMessage_def)

section \<open>Markings of a progress step (C4)\<close>

lemma onCustomEvent_marked_done:
  assumes "onCustomEvent ev st = Inr st'" and "\<not> restarts pid (Call cl (Custom ev))"
    and "marked_done (progress st) pid i"
  shows "marked_done (progress st') pid i"
proof (cases ev)
  case (ProgressStart p steps)
  with assms show ?thesis
    by (auto simp: onCustomEvent_def marked_done_def update_conv')
next
  case (ProgressDone p step)
  with assms show ?thesis
    by (cases "p = pid")
       (auto simp: onCustomEvent_def marked_done_def update_conv' length_Array_map
          nth_Array_map split: option.splits)
next
  case (ProgressError p step msg)
  with assms show ?thesis
    by (cases "p = pid")
       (auto simp: onCustomEvent_def marked_done_def update_conv' length_Array_map
          nth_Array_map split: option.splits)
next
  case (OtherCustom n v)
  with assms show ?thesis by (simp add: onCustomEvent_def)
qed

lemma onCustomEvent_marked_error:
  assumes "onCustomEvent ev st = Inr st'" and "\<not> restarts pid (Call cl (Custom ev))"
    and "marked_error (progress st) pid i"
  shows "marked_error (progress st') pid i"
proof (cases ev)
  case (ProgressStart p steps)
  with assms show ?thesis
    by (auto simp: onCustomEvent_def marked_error_def update_conv')
next
  case (ProgressDone p step)
  with assms show ?thesis
    by (cases "p = pid")
       (auto simp: onCustomEvent_def marked_error_def update_conv' length_Array_map
          nth_Array_map split: option.splits)
next
  case (ProgressError p step msg)
  with assms show ?thesis
    by (cases "p = pid")
       (auto simp: onCustomEvent_def marked_error_def update_conv' length_Array_map
          nth_Array_map split: option.splits)
next
  case (OtherCustom n v)
  with assms show ?thesis by (simp add: onCustomEvent_def)
qed

lemma subscriber_progress_other:
  assumes "subscriber cl ev st = Inr st'" and "\<forall>c. ev \<noteq> Custom c"
  shows "progress st' = progress st"
  using assms
  by (cases ev)
     (auto simp: onTextMessageStartEvent_def onTextMessageContentEvent_def
        onTextMessageEndEvent_def onToolCallEndEvent_def onStateSnapshotEvent_def
        onStateChanged_def onRunFinishedEvent_def unsubscribe_def onRunErrorEvent_def
        setMessages_def setMessage_def
        split: if_splits outcome.splits)

lemma progress_useEffect_refs: "progress (useEffect_refs st) = progress st"
  by (simp add: useEffect_refs_def)

lemma step_marked:
  assumes "run [s] st = Inr st'" and "\<not> restarts pid s"
  shows "(marked_done (progress st) pid i \<longrightarrow> marked_done (progress st') pid i) \<and>
         (marked_error (progress st) pid i \<longrightarrow> marked_error (progress st') pid i)"
proof (cases s)
  case (Call cl ev)
  with assms(1) have s: "subscriber cl ev st = Inr st'"
    by (auto split: sum.splits)
  show ?thesis
  proof (cases "\<exists>c. ev = Custom c")
    case True
    then obtain c where c: "ev = Custom c" by blast
    with s have "onCustomEvent c st = Inr st'" by simp
    with assms(2) c Call show ?thesis
      using onCustomEvent_marked_done onCustomEvent_marked_error by blast
  next
    case False
    with s have "progress st' = progress st" using subscriber_progress_other by blast
    then show ?thesis by simp
  qed
next
  case Render
  with assms(1) show ?thesis by (auto simp: progress_useEffect_refs)
qed

text \<open>
  C4, as the code has it. Once the step at (track, index) is marked done it stays marked
  done, and once it carries an error it keeps carrying one, through every later step of a
  trace (whichever handlers are called, whenever renders happen) that is not a
  progress-start for the same track (which replaces the track). The two markings are
  independent of each other: neither excludes or clears the other.
\<close>

theorem progress_markings_stay:
  assumes "run steps st = Inr st'" and "\<not> list_ex (restarts pid) steps"
  shows "(marked_done (progress st) pid i \<longrightarrow> marked_done (progress st') pid i) \<and>
         (marked_error (progress st) pid i \<longrightarrow> marked_error (progress st') pid i)"
  using assms
proof (induction steps arbitrary: st)
  case Nil
  then show ?case by simp
next
  case (Cons s steps)
  from Cons.prems(1) have "(case run [s] st of Inl e \<Rightarrow> Inl e | Inr x \<Rightarrow> run steps x) = Inr st'"
    using run_append [of "[s]" steps st] by simp
  then obtain x where x: "run [s] st = Inr x" and r: "run steps x = Inr st'"
    by (auto split: sum.splits)
  from Cons.prems(2) have n: "\<not> restarts pid s" "\<not> list_ex (restarts pid) steps" by simp_all
  from step_marked [OF x n(1)] Cons.IH [OF r n(2)] show ?case by blast
qed

lemma run_later_steps:
  "run later_steps after_done = Inr (projr (run later_steps after_done))"
  by (simp add: later_steps_def after_done_def setProgress_def mount_def
      onCustomEvent_def Array_map_def upt_rec useEffect_refs_def onTextMessageStartEvent_def
      setMessage_def chat_t1_def retry_t1_def)

theorem progress_markings_stay_witness:
  "marked_done (progress after_done) ''p1'' 0 \<and>
   \<not> list_ex (restarts ''p1'') later_steps \<and>
   run later_steps after_done = Inr (projr (run later_steps after_done)) \<and>
   marked_done (progress (projr (run later_steps after_done))) ''p1'' 0"
proof -
  have d: "marked_done (progress after_done) ''p1'' 0"
    by (simp add: marked_done_def after_done_def setProgress_def step_A_def)
  have n: "\<not> list_ex (restarts ''p1'') later_steps"
    by (simp add: later_steps_def)
  from progress_markings_stay [OF run_later_steps n, of 0] d n run_later_steps
  show ?thesis by blast
qed

text \<open>The claim as stated fails: a step that was marked done is changed by a later
  progress-error, and ends up both done and errored.\<close>

theorem done_step_marked_errored_counterexample:
  "map_sum id progress
     (run [Call chat_t1 (Custom (ProgressStart ''p1'' [step_A, step_B])), Render,
           Call chat_t1 (Custom (ProgressDone ''p1'' 0)), Render,
           Call chat_t1 (Custom (ProgressError ''p1'' 0 ''boom'')), Render]
        (mount ''t1''))
   = Inr [(''p1'',
           [\<lparr>step_label = ''A'', step_done = True, step_error = Some ''boom''\<rparr>, step_B])]"
  by (simp add: onCustomEvent_def mount_def useEffect_refs_def Array_map_def
      step_A_def step_B_def upt_rec)

section \<open>Assembling a streamed message (C5)\<close>

text \<open>When the last render was committed after the in-progress message was set, so that
  the ref holds it, a message-end appends that message and clears the slot.\<close>

lemma message_end_after_render:
  assumes "message st = Some m" and "messageRef st = message st"
  shows "messages (onTextMessageEndEvent st) = messages st @ [m]"
    and "message (onTextMessageEndEvent st) = None"
    and "\<not> runningAgent (onTextMessageEndEvent st)"
  using assms by (simp_all add: onTextMessageEndEvent_def setMessages_def setMessage_def)

text \<open>
  C5 on the code: a message-start, a content event and the message-end that are handled
  without a render in between (they arrive in one chunk) do not append the assembled
  message. The message-end reads \<^verbatim>\<open>messageRef.current\<close>, which still has the value of the
  last render: here \<^verbatim>\<open>null\<close> is appended after the user's message, and the in-progress
  message is dropped.
\<close>

theorem message_end_in_one_tick_appends_null:
  "map_sum id (\<lambda>st. (messages st, message st))
     (run [Call chat_t1 (TextMessageStart ''m1''),
           Call chat_t1 (TextMessageContent ''m1'' ''Hello'' ''''),
           Call chat_t1 (TextMessageEnd ''m1''), Render]
        sent_hi)
   = Inr ([ChatMessage (Uuid 1) User (Some ''t1'') [TextPart ''hi''], NullMessage], None)"
  by (simp add: sent_hi_fields onTextMessageStartEvent_def onTextMessageContentEvent_def
      onTextMessageEndEvent_def setMessages_def setMessage_def useEffect_refs_def)

section \<open>Run errors (C6)\<close>

text \<open>One call of the handler: nothing changes for the \<^verbatim>\<open>AbortError\<close> of a cancellation;
  for any other reason one error message with the error text is appended and
  \<^verbatim>\<open>runningAgent\<close> becomes false. The handler does not release its subscription.\<close>

lemma onRunErrorEvent_one_call:
  "(rawEvent_name = Some ''AbortError'' \<longrightarrow>
      subscriber cl (RunError rawEvent_name msg) st = Inr st) \<and>
   (rawEvent_name \<noteq> Some ''AbortError'' \<longrightarrow>
      (\<exists>st'. subscriber cl (RunError rawEvent_name msg) st = Inr st' \<and>
         messages st' = messages st @ [ErrorMessage (Uuid (uuid_next st)) (cl_chatId cl) msg] \<and>
         \<not> runningAgent st' \<and> message st' = message st \<and> progress st' = progress st \<and>
         state st' = state st \<and> subscribers st' = subscribers st))"
  by (simp add: onRunErrorEvent_def setMessages_def)

text \<open>
  C6 on the code: a run-error event does not always append exactly one error message.
  After a run that ended with an error, the subscription of that run is still registered;
  a second \<^verbatim>\<open>sendMessage\<close> in the same chat subscribes again on the same agent. A run-error
  of the second run is handed to the handlers of both subscriptions and two error messages
  with its text are appended.
\<close>

theorem run_error_after_retry_appends_two:
  "subscribers retried = [cl_unsubscribe chat_t1, cl_unsubscribe retry_t1] \<and>
   map run_agent (runs retried) = [0, 0] \<and>
   map_sum id messages
     (run [Call chat_t1 (RunError None ''503 Service Unavailable''),
           Call retry_t1 (RunError None ''503 Service Unavailable''), Render]
        retried)
   = Inr ([ChatMessage (Uuid 1) User (Some ''t1'') [TextPart ''hi''],
           ErrorMessage (Uuid 2) ''t1'' ''502 Bad Gateway'',
           ChatMessage (Uuid 4) User (Some ''t1'') [TextPart ''again''],
           ErrorMessage (Uuid 5) ''t1'' ''503 Service Unavailable'',
           ErrorMessage (Uuid 6) ''t1'' ''503 Service Unavailable''])"
  by (simp add: retried_fields onRunErrorEvent_def setMessages_def chat_t1_def retry_t1_def
      useEffect_refs_def)

section \<open>Run finished (C7)\<close>

text \<open>
  C7, as the code has it. A run-finished event releases the subscription of the handler,
  empties the \<^verbatim>\<open>unsubscribe\<close> ref and calls \<^verbatim>\<open>refetchChats\<close> once; it leaves \<^verbatim>\<open>runningAgent\<close>
  (and the messages, the in-progress message, the progress tracks and the state snapshot)
  as they were.
\<close>

theorem onRunFinishedEvent_effects:
  "\<exists>st'. subscriber cl RunFinished st = Inr st' \<and>
     cl_unsubscribe cl \<notin> set (subscribers st') \<and>
     unsubscribeRef st' = None \<and>
     refetchChats_calls st' = Suc (refetchChats_calls st) \<and>
     runningAgent st' = runningAgent st \<and>
     messages st' = messages st \<and> message st' = message st \<and>
     progress st' = progress st \<and> state st' = state st"
  by (simp add: onRunFinishedEvent_def unsubscribe_def)

text \<open>The claim as stated fails: after \<^verbatim>\<open>sendMessage\<close>, a run-finished event leaves
  \<^verbatim>\<open>runningAgent\<close> true.\<close>

theorem run_finished_keeps_running_counterexample:
  "map_sum id runningAgent
     (subscriber (sendMessage_subscription (mount ''t1'')) RunFinished
        (sendMessage ''hi'' (mount ''t1'')))
   = Inr True"
  by (simp add: onRunFinishedEvent_def unsubscribe_def sendMessage_def setMessages_def)

section \<open>The merged view (C8)\<close>

text \<open>
  C8, as the code has it. The view is memoised on the history, the finalized messages, the
  in-progress message and the loading flag. When it is computed (at the first render, or
  when one of the four has changed since the last computation) it is the seed messages, if
  the history is not loading and is missing or empty, followed by the history, the
  finalized messages and the in-progress message if there is one; otherwise it is the view
  of the last computation. Whether the seed is shown does not depend on the live messages.
\<close>

theorem combinedMessages_memoised:
  "snd (combinedMessages cell isLoadingHistory history st) =
     (if cell \<noteq> None \<and> fst (the cell) = combinedMessages_deps isLoadingHistory history st
      then snd (the cell)
      else (if \<not> isLoadingHistory \<and> (history = None \<or> snd (the history) = [])
            then initialMessages st else [])
           @ (case history of Some h \<Rightarrow> snd h | None \<Rightarrow> [])
           @ messages st
           @ (case message st of Some m \<Rightarrow> [m] | None \<Rightarrow> []))"
  by (auto simp: combinedMessages_def useMemo_def combinedMessages_factory_def Let_def
      split: option.splits)

text \<open>The claim as stated fails: with an empty history the seed message is in the view,
  and it stays there after the user's message has made the live state non-empty.\<close>

theorem seed_kept_with_live_messages_counterexample:
  "snd loaded_cell = [seed_message] \<and>
   snd (combinedMessages (Some loaded_cell) False (Some (7, []))
          (sendMessage ''hi'' (setInitialMessages [seed_message] (mount ''t1''))))
   = [seed_message, ChatMessage (Uuid 1) User (Some ''t1'') [TextPart ''hi'']]"
  by (simp add: loaded_cell_def loading_cell_def combinedMessages_def useMemo_def
      combinedMessages_deps_def combinedMessages_factory_def sendMessage_def
      setInitialMessages_def mount_def setMessages_def createTextMessageFromUserInput_def
      default_chatId_def)

text \<open>The seed messages are not a dependency of the memo: set after the view was
  computed, they are not shown until a dependency changes.\<close>

lemma setInitialMessages_no_dependency:
  "combinedMessages_deps isLoadingHistory history (setInitialMessages ms st) =
   combinedMessages_deps isLoadingHistory history st"
  by (simp add: combinedMessages_deps_def setInitialMessages_def)

lemma view_stale_after_setInitialMessages:
  "snd empty_cell = [] \<and>
   snd (combinedMessages (Some empty_cell) False (Some (7, []))
          (setInitialMessages [seed_message] (mount ''t1''))) = [] \<and>
   combinedMessages_factory False (Some [])
     (setInitialMessages [seed_message] (mount ''t1'')) = [seed_message]"
  by (simp add: empty_cell_def combinedMessages_def useMemo_def combinedMessages_deps_def
      combinedMessages_factory_def setInitialMessages_def mount_def)

section \<open>Tool registration (C9)\<close>

text \<open>
  C9. Registering a name twice leaves exactly one entry under that name, the later
  descriptor; the tools given to the agent at the start of a run are the registered
  descriptors whose \<^verbatim>\<open>enabled\<close> is not \<^verbatim>\<open>false\<close>, so none of them is disabled and the later
  descriptor is among them unless it is disabled.
\<close>

theorem registerOrUpdateTool_upsert:
  assumes "distinct (map fst (tools st))"
      and "st2 = registerOrUpdateTool n d2 (registerOrUpdateTool n d1 st)"
  shows "filter (\<lambda>(k, v). k = n) (tools st2) = [(n, d2)]
       \<and> run_tools (last (runs (sendMessage text st2))) =
           filter (\<lambda>tool. enabled tool \<noteq> Some False) (Object_values (tools st2))
       \<and> (\<forall>t \<in> set (run_tools (last (runs (sendMessage text st2)))). enabled t \<noteq> Some False)
       \<and> (enabled d2 \<noteq> Some False \<longrightarrow> d2 \<in> set (run_tools (last (runs (sendMessage text st2)))))"
proof -
  have d: "distinct (map fst (AList.update n d1 (tools st)))"
    using assms(1) by (rule distinct_update)
  have f: "filter (\<lambda>(k, v). k = n) (tools st2) = [(n, d2)]"
    using filter_key_update [OF d, of n d2] by (simp add: assms(2) registerOrUpdateTool_def)
  have "map_of (tools st2) n = Some d2"
    by (simp add: assms(2) registerOrUpdateTool_def update_conv')
  then have "(n, d2) \<in> set (tools st2)" by (rule map_of_SomeD)
  then have "d2 \<in> set (Object_values (tools st2))"
    by (force simp: set_Object_values)
  with f show ?thesis
    by (simp add: sendMessage_def setMessages_def)
qed

lemma not_array_index: "is_array_index ''hidden'' = False" "is_array_index ''alert'' = False"
  by (simp_all add: is_array_index_def is_digit_def)

theorem registerOrUpdateTool_upsert_witness:
  "distinct (map fst (tools (registerOrUpdateTool ''hidden'' hidden_tool (mount ''t1'')))) \<and>
   tools (registerOrUpdateTool ''alert'' alert_v2 (registerOrUpdateTool ''alert'' alert_v1
            (registerOrUpdateTool ''hidden'' hidden_tool (mount ''t1'')))) =
     [(''hidden'', hidden_tool), (''alert'', alert_v2)] \<and>
   run_tools (last (runs (sendMessage ''hi''
      (registerOrUpdateTool ''alert'' alert_v2 (registerOrUpdateTool ''alert'' alert_v1
            (registerOrUpdateTool ''hidden'' hidden_tool (mount ''t1'')))))))
     = [alert_v2]"
proof -
  have h: "distinct (map fst (tools (registerOrUpdateTool ''hidden'' hidden_tool (mount ''t1''))))"
    by (simp add: registerOrUpdateTool_def mount_def)
  show ?thesis
    using h registerOrUpdateTool_upsert [OF h refl, of "''alert''" alert_v2 alert_v1 "''hi''"]
    by (simp add: registerOrUpdateTool_def mount_def sendMessage_def Object_values_def
        Object_entries_def not_array_index setMessages_def
        alert_v1_def alert_v2_def hidden_tool_def)
qed

section \<open>The end of a tool call (C10)\<close>






text \<open>A binding assigned to the key \<^verbatim>\<open>__proto__\<close> is found under that key, and is no own
  property.\<close>

lemma proto_binding:
  "bound_handler (updateToolHandler ''__proto__'' alert_handlers (mount ''t1'')) ''__proto__''
     = handler alert_handlers \<and>
   toolHandlersRef (updateToolHandler ''__proto__'' alert_handlers (mount ''t1'')) = []"
  by (simp add: bound_handler_def toolHandler_found_def updateToolHandler_def mount_def)

end
